theory Spec2Isabelle
  imports Complex_Main
begin

section \<open>Data model\<close>

text \<open>
  The solver of \<^verbatim>\<open>src/sunrise_sunset.py\<close> (class \<^verbatim>\<open>SolarMath\<close>) receives a
  \<^verbatim>\<open>datetime.date\<close>, two \<^verbatim>\<open>datetime.time\<close> values and a UTC offset. The clock
  arithmetic of the source is integer arithmetic (Python's unbounded \<^verbatim>\<open>int\<close>, here
  \<^typ>\<open>int\<close>); everything after the first true division is a Python \<^verbatim>\<open>float\<close>.
  Floats are modelled by the real numbers they approximate: \<^verbatim>\<open>math.sin\<close>,
  \<^verbatim>\<open>math.cos\<close>, \<^verbatim>\<open>math.tan\<close> and \<^verbatim>\<open>math.atan\<close> are \<^const>\<open>sin\<close>, \<^const>\<open>cos\<close>,
  \<^const>\<open>tan\<close> and \<^const>\<open>arctan\<close> on \<^typ>\<open>real\<close>, and no rounding takes place. The
  theorems about \<^verbatim>\<open>get_solar_declination_and_eot\<close> and \<^verbatim>\<open>solve_location\<close> are
  statements about this exact arithmetic. A second model of the same two functions, with
  every float operation rounded to the nearest double, follows it; it decides the one
  property that the rounding changes.
\<close>

record date =
  year :: int
  month :: int
  day :: int

record clock_time =
  hour :: int
  minute :: int
  second :: int

text \<open>
  \<^verbatim>\<open>datetime.time\<close> refuses fields out of range when the value is built, and the
  form of the application offers the same ranges.
\<close>

definition valid_time :: "clock_time \<Rightarrow> bool" where
  "valid_time t =
     (0 \<le> hour t \<and> hour t \<le> 23 \<and> 0 \<le> minute t \<and> minute t \<le> 59 \<and>
      0 \<le> second t \<and> second t \<le> 59)"

subsection \<open>Day of the year\<close>

text \<open>
  \<^verbatim>\<open>date_obj.timetuple().tm_yday\<close> is computed by the standard library's
  \<^verbatim>\<open>datetime\<close> module as \<^verbatim>\<open>_days_before_month(year, month) + day\<close>, where
  \<^verbatim>\<open>_is_leap(year) = year % 4 == 0 and (year % 100 != 0 or year % 400 == 0)\<close> and
  \<^verbatim>\<open>_days_before_month(year, month) = _DAYS_BEFORE_MONTH[month] + (month > 2 and _is_leap(year))\<close>.
  Both tables are indexed by the month, from 1, with a placeholder at index 0.
\<close>

definition is_leap :: "int \<Rightarrow> bool" where
  "is_leap y = (y mod 4 = 0 \<and> (y mod 100 \<noteq> 0 \<or> y mod 400 = 0))"

definition DAYS_IN_MONTH :: "int list" where
  "DAYS_IN_MONTH = [- 1, 31, 28, 31, 30, 31, 30, 31, 31, 30, 31, 30, 31]"

definition DAYS_BEFORE_MONTH :: "int list" where
  "DAYS_BEFORE_MONTH = [- 1, 0, 31, 59, 90, 120, 151, 181, 212, 243, 273, 304, 334]"

definition days_before_month :: "int \<Rightarrow> int \<Rightarrow> int" where
  "days_before_month y m =
     DAYS_BEFORE_MONTH ! nat m + (if 2 < m \<and> is_leap y then 1 else 0)"

definition days_in_month :: "int \<Rightarrow> int \<Rightarrow> int" where
  "days_in_month y m =
     (if m = 2 \<and> is_leap y then 29 else DAYS_IN_MONTH ! nat m)"

text \<open>
  The dates \<^verbatim>\<open>datetime.date\<close> accepts; only these reach the solver, and on these the
  table lookups above are in range.
\<close>

definition valid_date :: "date \<Rightarrow> bool" where
  "valid_date d =
     (1 \<le> year d \<and> year d \<le> 9999 \<and> 1 \<le> month d \<and> month d \<le> 12 \<and>
      1 \<le> day d \<and> day d \<le> days_in_month (year d) (month d))"

definition tm_yday :: "date \<Rightarrow> int" where
  "tm_yday d = days_before_month (year d) (month d) + day d"

subsection \<open>Degrees and radians\<close>

text \<open>\<^verbatim>\<open>math.radians(x)\<close> is \<^verbatim>\<open>x * (pi / 180)\<close>, \<^verbatim>\<open>math.degrees(x)\<close> is \<^verbatim>\<open>x * (180 / pi)\<close>.\<close>

definition radians :: "real \<Rightarrow> real" where
  "radians x = x * (pi / 180)"

definition degrees :: "real \<Rightarrow> real" where
  "degrees x = x * (180 / pi)"

section \<open>Declination and equation of time\<close>

text \<open>
  \<^verbatim>\<open>SolarMath.get_solar_declination_and_eot\<close> (lines 23--36): returns the pair
  (declination in radians, equation of time in minutes).
\<close>

definition get_solar_declination_and_eot :: "date \<Rightarrow> real \<times> real" where
  "get_solar_declination_and_eot date_obj =
     (let day_of_year = tm_yday date_obj;
          B = (360 / 365) * real_of_int (day_of_year - 81);
          B_rad = radians B;
          eot = 9.87 * sin (2 * B_rad) - 7.53 * cos B_rad - 1.5 * sin B_rad;
          delta_deg = 23.45 * sin B_rad;
          delta_rad = radians delta_deg
      in (delta_rad, eot))"

section \<open>The inverse location solver\<close>

text \<open>
  \<^verbatim>\<open>SolarMath.solve_location\<close> (lines 38--74) returns a pair: the location
  \<^verbatim>\<open>(latitude, longitude)\<close> or \<^verbatim>\<open>None\<close>, and a message or \<^verbatim>\<open>None\<close>. The two
  messages of the source are the error of line 47 (sunset must be later than sunrise) and
  the warning of line 68 (close to an equinox, the latitude may be inaccurate and defaults
  to the equator).

  The only exception the body could raise is the \<^verbatim>\<open>ZeroDivisionError\<close> of the float
  division by \<^verbatim>\<open>tan_delta\<close> on line 70 (every other divisor is a non-zero literal); it
  is a branch of the model.
\<close>

datatype message = Error_sunset_not_later | Warning_near_equinox

datatype py_error = ZeroDivisionError

type_synonym outcome = "(real \<times> real) option \<times> message option"

text \<open>
  Seconds since midnight, the expression of lines 41 and 42. The solver below writes it
  out twice, as the source does; the theorems name it.
\<close>

definition clock_seconds :: "clock_time \<Rightarrow> int" where
  "clock_seconds t = hour t * 3600 + minute t * 60 + second t"

definition solve_location ::
  "date \<Rightarrow> clock_time \<Rightarrow> clock_time \<Rightarrow> real \<Rightarrow> py_error + outcome" where
  "solve_location target_date sunrise_time sunset_time utc_offset =
     (let sr_seconds = hour sunrise_time * 3600 + minute sunrise_time * 60 + second sunrise_time;
          ss_seconds = hour sunset_time * 3600 + minute sunset_time * 60 + second sunset_time;
          day_length_seconds = ss_seconds - sr_seconds
      in if day_length_seconds \<le> 0 then Inr (None, Some Error_sunset_not_later)
         else
          let local_solar_noon_seconds =
                real_of_int sr_seconds + real_of_int day_length_seconds / 2;
              local_solar_noon_min = local_solar_noon_seconds / 60;
              (delta_rad, eot_min) = get_solar_declination_and_eot target_date;
              utc_noon_min = local_solar_noon_min - utc_offset * 60;
              long_offset_min = 720 - utc_noon_min - eot_min;
              longitude = long_offset_min / 4;
              day_length_hours = real_of_int day_length_seconds / 3600;
              omega_deg = (day_length_hours / 2) * 15;
              omega_rad = radians omega_deg;
              tan_delta = tan delta_rad
          in if \<bar>tan_delta\<bar> < 0.001 then Inr (Some (0, longitude), Some Warning_near_equinox)
             else if tan_delta = 0 then Inl ZeroDivisionError
             else
              let tan_phi = - cos omega_rad / tan_delta;
                  phi_rad = arctan tan_phi;
                  latitude = degrees phi_rad
              in Inr (Some (latitude, longitude), None))"

section \<open>The specification's formulas\<close>

text \<open>
  The solar angles as the specification writes them, as a function of the day of the year:
  \<open>B = (360 / 365) * (dayOfYear - 81)\<close> degrees, in radians;
  \<open>equationOfTime = 9.87 * sin (2 B) - 7.53 * cos B - 1.5 * sin B\<close>;
  \<open>declination = radians (23.45 * sin B)\<close>. The result is the pair (declination,
  equation of time), in the order of the source.
\<close>

definition computeSolarAngles_spec :: "int \<Rightarrow> real \<times> real" where
  "computeSolarAngles_spec dayOfYear =
     (let B = radians ((360 / 365) * (real_of_int dayOfYear - 81));
          equationOfTime = 9.87 * sin (2 * B) - 7.53 * cos B - 1.5 * sin B;
          declination = radians (23.45 * sin B)
      in (declination, equationOfTime))"

section \<open>The solver in double precision\<close>

text \<open>
  A Python \<^verbatim>\<open>float\<close> is an IEEE 754 binary64 number, and every arithmetic operation
  on floats returns the exact result rounded to the nearest such number, ties to the even
  significand. The model above reads lines 49--74 in exact arithmetic. Where a property
  depends on the rounding, the solver is read a second time with every float operation
  rounded; doubles are the real numbers they denote.
\<close>

subsection \<open>Rounding\<close>

text \<open>
  \<^verbatim>\<open>round_even\<close> rounds to the nearest integer, a tie to the even one.
  \<^verbatim>\<open>binary64 x\<close> rounds \<open>x\<close> to 53 significant bits: with \<open>2^k \<le> \<bar>x\<bar> < 2^(k+1)\<close> the
  result is a multiple of \<open>2^(k-52)\<close>. The exponent is not bounded, so this is the IEEE
  rounding whenever the result is zero or has a magnitude from \<open>2^-1022\<close> up to the largest
  double; no quantity of the solver leaves that range for inputs of the application.
\<close>

definition round_even :: "real \<Rightarrow> int" where
  "round_even x =
     (let f = \<lfloor>x\<rfloor>; r = x - of_int f
      in if r < 1 / 2 then f else if 1 / 2 < r then f + 1 else if even f then f else f + 1)"

definition binary64 :: "real \<Rightarrow> real" where
  "binary64 x =
     (if x = 0 then 0
      else let e = \<lfloor>log 2 \<bar>x\<bar>\<rfloor> - 52
           in of_int (round_even (x / 2 powr of_int e)) * 2 powr of_int e)"

text \<open>
  The float operations of the source. An \<^verbatim>\<open>int\<close> operand is converted first
  (\<^verbatim>\<open>float_of_int\<close>); the integer constants of the source are doubles already and are
  written as they are. \<^verbatim>\<open>int / int\<close> is the correctly rounded quotient.
\<close>

definition fadd :: "real \<Rightarrow> real \<Rightarrow> real" where
  "fadd a b = binary64 (a + b)"

definition fsub :: "real \<Rightarrow> real \<Rightarrow> real" where
  "fsub a b = binary64 (a - b)"

definition fmul :: "real \<Rightarrow> real \<Rightarrow> real" where
  "fmul a b = binary64 (a * b)"

definition fdiv :: "real \<Rightarrow> real \<Rightarrow> real" where
  "fdiv a b = binary64 (a / b)"

definition float_of_int :: "int \<Rightarrow> real" where
  "float_of_int n = binary64 (of_int n)"

text \<open>
  \<^verbatim>\<open>math.radians(x)\<close> is \<^verbatim>\<open>x * degToRad\<close> with the constant
  \<^verbatim>\<open>degToRad = Py_MATH_PI / 180.0\<close>, and \<^verbatim>\<open>math.degrees(x)\<close> is
  \<^verbatim>\<open>x * radToDeg\<close> with \<^verbatim>\<open>radToDeg = 180.0 / Py_MATH_PI\<close>.
\<close>

definition radians_double :: "real \<Rightarrow> real" where
  "radians_double x = fmul x (fdiv (binary64 pi) 180)"

definition degrees_double :: "real \<Rightarrow> real" where
  "degrees_double x = fmul x (fdiv 180 (binary64 pi))"

subsection \<open>The mathematical library\<close>

text \<open>
  \<^verbatim>\<open>math.sin\<close>, \<^verbatim>\<open>math.cos\<close>, \<^verbatim>\<open>math.tan\<close> and \<^verbatim>\<open>math.atan\<close> call
  the platform's C library, which is not part of the repository: the double-precision
  solver takes the four functions as a parameter. \<^verbatim>\<open>libm_rounded\<close> is the library that
  returns the correctly rounded value; it serves for closed instances. At the argument 0
  every IEEE 754 library returns \<open>sin 0 = 0\<close>, \<open>cos 0 = 1\<close> and \<open>tan 0 = 0\<close> exactly.
\<close>

record libm =
  m_sin :: "real \<Rightarrow> real"
  m_cos :: "real \<Rightarrow> real"
  m_tan :: "real \<Rightarrow> real"
  m_atan :: "real \<Rightarrow> real"

definition libm_rounded :: libm where
  "libm_rounded =
     \<lparr>m_sin = (\<lambda>x. binary64 (sin x)), m_cos = (\<lambda>x. binary64 (cos x)),
      m_tan = (\<lambda>x. binary64 (tan x)), m_atan = (\<lambda>x. binary64 (arctan x))\<rparr>"

subsection \<open>The two functions\<close>

text \<open>
  The same translation of lines 23--36 and 38--74 as above, operation for operation, with
  each float operation rounded and each decimal literal read as its nearest double.
\<close>

definition get_solar_declination_and_eot_double :: "libm \<Rightarrow> date \<Rightarrow> real \<times> real" where
  "get_solar_declination_and_eot_double L date_obj =
     (let day_of_year = tm_yday date_obj;
          B = fmul (fdiv 360 365) (float_of_int (day_of_year - 81));
          B_rad = radians_double B;
          eot = fsub (fsub (fmul (binary64 9.87) (m_sin L (fmul 2 B_rad)))
                           (fmul (binary64 7.53) (m_cos L B_rad)))
                     (fmul (binary64 1.5) (m_sin L B_rad));
          delta_deg = fmul (binary64 23.45) (m_sin L B_rad);
          delta_rad = radians_double delta_deg
      in (delta_rad, eot))"

definition solve_location_double ::
  "libm \<Rightarrow> date \<Rightarrow> clock_time \<Rightarrow> clock_time \<Rightarrow> real \<Rightarrow> py_error + outcome" where
  "solve_location_double L target_date sunrise_time sunset_time utc_offset =
     (let sr_seconds = hour sunrise_time * 3600 + minute sunrise_time * 60 + second sunrise_time;
          ss_seconds = hour sunset_time * 3600 + minute sunset_time * 60 + second sunset_time;
          day_length_seconds = ss_seconds - sr_seconds
      in if day_length_seconds \<le> 0 then Inr (None, Some Error_sunset_not_later)
         else
          let local_solar_noon_seconds =
                fadd (float_of_int sr_seconds) (binary64 (of_int day_length_seconds / 2));
              local_solar_noon_min = fdiv local_solar_noon_seconds 60;
              (delta_rad, eot_min) = get_solar_declination_and_eot_double L target_date;
              utc_noon_min = fsub local_solar_noon_min (fmul utc_offset 60);
              long_offset_min = fsub (fsub 720 utc_noon_min) eot_min;
              longitude = fdiv long_offset_min 4;
              day_length_hours = fdiv (float_of_int day_length_seconds) 3600;
              omega_deg = fmul (fdiv day_length_hours 2) 15;
              omega_rad = radians_double omega_deg;
              tan_delta = m_tan L delta_rad
          in if \<bar>tan_delta\<bar> < binary64 0.001
             then Inr (Some (0, longitude), Some Warning_near_equinox)
             else if tan_delta = 0 then Inl ZeroDivisionError
             else
              let tan_phi = fdiv (- m_cos L omega_rad) tan_delta;
                  phi_rad = m_atan L tan_phi;
                  latitude = degrees_double phi_rad
              in Inr (Some (latitude, longitude), None))"

text \<open>
  The longitude of lines 49--58 in double precision, as a function of the equation of time
  that line 52 returns, the sunrise in seconds, the day length in seconds and the offset.
\<close>

definition longitude_double :: "real \<Rightarrow> int \<Rightarrow> int \<Rightarrow> real \<Rightarrow> real" where
  "longitude_double eot_min sr_seconds day_length_seconds utc_offset =
     fdiv (fsub (fsub 720
                   (fsub (fdiv (fadd (float_of_int sr_seconds)
                                     (binary64 (of_int day_length_seconds / 2))) 60)
                         (fmul utc_offset 60)))
                eot_min) 4"

section \<open>Auxiliary facts\<close>

subsection \<open>The solver without its local bindings\<close>

text \<open>
  The three reachable results of the solver. The division of line 70 is reached only when
  \<open>\<bar>tan_delta\<bar> \<ge> 0.001\<close>, so the divisor is never zero.
\<close>

lemma solve_location_unfold:
  "solve_location d sunrise_time sunset_time off =
     (if clock_seconds sunset_time - clock_seconds sunrise_time \<le> 0
      then Inr (None, Some Error_sunset_not_later)
      else if \<bar>tan (fst (get_solar_declination_and_eot d))\<bar> < 0.001
      then Inr (Some (0,
         (720 - ((real_of_int (clock_seconds sunrise_time)
                  + real_of_int (clock_seconds sunset_time - clock_seconds sunrise_time) / 2) / 60
                 - off * 60)
              - snd (get_solar_declination_and_eot d)) / 4), Some Warning_near_equinox)
      else Inr (Some (degrees (arctan (- cos (radians
              (real_of_int (clock_seconds sunset_time - clock_seconds sunrise_time) / 3600 / 2 * 15))
              / tan (fst (get_solar_declination_and_eot d)))),
         (720 - ((real_of_int (clock_seconds sunrise_time)
                  + real_of_int (clock_seconds sunset_time - clock_seconds sunrise_time) / 2) / 60
                 - off * 60)
              - snd (get_solar_declination_and_eot d)) / 4), None))"
proof -
  have "tan (fst (get_solar_declination_and_eot d)) \<noteq> 0"
    if "\<not> \<bar>tan (fst (get_solar_declination_and_eot d))\<bar> < 0.001"
    using that by auto
  then show ?thesis
    by (simp add: solve_location_def clock_seconds_def Let_def split_beta)
qed

subsection \<open>Dates and clock times\<close>

text \<open>On a valid date the day of the year is between 1 and 366.\<close>

lemma days_before_month_range:
  assumes "1 \<le> m" and "m \<le> 12" and "1 \<le> n" and "n \<le> days_in_month y m"
  shows "1 \<le> days_before_month y m + n \<and> days_before_month y m + n \<le> 366"
proof -
  from assms(1,2) have "m \<in> {1, 2, 3, 4, 5, 6, 7, 8, 9, 10, 11, 12}" by simp presburger
  then show ?thesis
    using assms(3,4)
    by (auto simp: days_before_month_def days_in_month_def
        DAYS_BEFORE_MONTH_def DAYS_IN_MONTH_def split: if_splits)
qed

lemma tm_yday_range:
  assumes "valid_date d"
  shows "1 \<le> tm_yday d \<and> tm_yday d \<le> 366"
  using assms unfolding valid_date_def tm_yday_def
  by (intro days_before_month_range) simp_all

lemma clock_seconds_range:
  assumes "valid_time t"
  shows "0 \<le> clock_seconds t \<and> clock_seconds t \<le> 86399"
  using assms by (simp add: valid_time_def clock_seconds_def)

subsection \<open>Bounds on the solar angles\<close>

lemma eot_bound:
  "\<bar>snd (get_solar_declination_and_eot d)\<bar> \<le> 18.9"
proof -
  define b where "b = radians (360 / 365 * real_of_int (tm_yday d - 81))"
  have e: "snd (get_solar_declination_and_eot d) = 9.87 * sin (2 * b) - 7.53 * cos b - 1.5 * sin b"
    by (simp add: get_solar_declination_and_eot_def Let_def b_def)
  have "- 1 \<le> sin (2 * b)" "sin (2 * b) \<le> 1" "- 1 \<le> cos b" "cos b \<le> 1"
    "- 1 \<le> sin b" "sin b \<le> 1" by simp_all
  then show ?thesis unfolding e by (intro abs_leI; simp; linarith)
qed

lemma declination_bound:
  "\<bar>fst (get_solar_declination_and_eot d)\<bar> \<le> radians 23.45"
proof -
  define b where "b = radians (360 / 365 * real_of_int (tm_yday d - 81))"
  have e: "fst (get_solar_declination_and_eot d) = radians (23.45 * sin b)"
    by (simp add: get_solar_declination_and_eot_def Let_def b_def)
  have "- 1 \<le> sin b" "sin b \<le> 1" by simp_all
  then have "\<bar>23.45 * sin b\<bar> \<le> 23.45" by (intro abs_leI; simp; linarith)
  then have "\<bar>23.45 * sin b\<bar> * (pi / 180) \<le> 23.45 * (pi / 180)"
    by (intro mult_right_mono) simp_all
  then show ?thesis unfolding e radians_def by (simp add: abs_mult)
qed

lemma radians_2345_lt: "radians 23.45 < pi / 2"
  by (simp add: radians_def)

text \<open>
  The declination stays inside \<open>(-pi/2, pi/2)\<close>, where the cosine is positive: the
  quotient \<^term>\<open>sin x / cos x\<close> that defines \<^const>\<open>tan\<close> never has a zero
  denominator on the values the solver passes to it.
\<close>

lemma declination_cos_pos: "0 < cos (fst (get_solar_declination_and_eot d))"
proof -
  have "\<bar>fst (get_solar_declination_and_eot d)\<bar> < pi / 2"
    using declination_bound [of d] radians_2345_lt by linarith
  then show ?thesis by (intro cos_gt_zero_pi) linarith+
qed

subsection \<open>Bounds on the results\<close>

lemma degrees_arctan_bounds: "- 90 < degrees (arctan x) \<and> degrees (arctan x) < 90"
proof -
  have "- (pi / 2) < arctan x" "arctan x < pi / 2"
    using arctan_bounded [of x] by simp_all
  then show ?thesis by (simp add: degrees_def field_simps)
qed

lemma longitude_range:
  fixes a b :: int and off e :: real
  assumes "0 \<le> a" "b \<le> 86399" "a < b" "- 12 \<le> off" "off \<le> 14" "\<bar>e\<bar> \<le> 18.9"
  shows "- 364.725 < (720 - ((real_of_int a + real_of_int (b - a) / 2) / 60 - off * 60) - e) / 4
       \<and> (720 - ((real_of_int a + real_of_int (b - a) / 2) / 60 - off * 60) - e) / 4 < 394.725"
proof -
  have "0 \<le> real_of_int a" "real_of_int b \<le> 86399" "real_of_int a + 1 \<le> real_of_int b"
    using assms(1-3) by linarith+
  moreover have "- 18.9 \<le> e" "e \<le> 18.9" using assms(6) by linarith+
  ultimately show ?thesis using assms(4,5) by (simp add: field_simps) 
qed

subsection \<open>A lower bound for the tangent\<close>

lemma sin_lower:
  assumes "0 \<le> x" "x \<le> 1" shows "x / 2 \<le> sin (x::real)"
proof -
  have "\<bar>sin x - (\<Sum>m<2. sin_coeff m * x ^ m)\<bar> \<le> inverse (fact 2) * \<bar>x\<bar> ^ 2"
    by (rule Maclaurin_sin_bound)
  then have "\<bar>sin x - x\<bar> \<le> x\<^sup>2 / 2" 
    by (simp add: sin_coeff_def numeral_2_eq_2)
  moreover have "x\<^sup>2 \<le> x" using assms by (simp add: power2_eq_square mult_left_le)
  ultimately show ?thesis by linarith
qed

lemma tan_lower:
  assumes "0 \<le> x" "x < 1" shows "x / 2 \<le> tan (x::real)"
proof -
  have "x < pi / 2" using assms pi_ge_two by linarith
  then have c: "0 < cos x" using assms by (intro cos_gt_zero_pi) linarith+
  have s: "x / 2 \<le> sin x" using assms by (intro sin_lower) simp_all
  have "sin x * cos x \<le> sin x * 1" using s assms by (intro mult_left_mono) simp_all
  then have "sin x \<le> sin x / cos x" using c by (simp add: pos_le_divide_eq)
  then have "x / 2 \<le> sin x / cos x" using s by linarith
  then show ?thesis by (simp only: tan_def)
qed

subsection \<open>Days of the year used as instances\<close>

lemma tm_yday_2023_03_22: "tm_yday \<lparr>year = 2023, month = 3, day = 22\<rparr> = 81"
  by (simp add: tm_yday_def days_before_month_def DAYS_BEFORE_MONTH_def is_leap_def)

lemma tm_yday_2024_03_21: "tm_yday \<lparr>year = 2024, month = 3, day = 21\<rparr> = 81"
  by (simp add: tm_yday_def days_before_month_def DAYS_BEFORE_MONTH_def is_leap_def)

lemma tm_yday_2023_06_21: "tm_yday \<lparr>year = 2023, month = 6, day = 21\<rparr> = 172"
  by (simp add: tm_yday_def days_before_month_def DAYS_BEFORE_MONTH_def is_leap_def)

lemma angles_day_81:
  "tm_yday d = 81 \<Longrightarrow> get_solar_declination_and_eot d = (0, - 7.53)"
  by (simp add: get_solar_declination_and_eot_def radians_def Let_def)

lemma declination_day_172:
  assumes "tm_yday d = 172"
  shows "fst (get_solar_declination_and_eot d) = radians (23.45 * sin (182 * pi / 365))"
  using assms by (simp add: get_solar_declination_and_eot_def radians_def Let_def)

lemma sin_solstice: "1 / 2 \<le> sin (182 * pi / 365)"
proof -
  have "sin (pi / 6) \<le> sin (182 * pi / 365)"
    by (rule sin_monotone_2pi_le) (simp_all add: field_simps)
  then show ?thesis by (simp add: sin_30)
qed

lemma tan_declination_day_172:
  assumes "tm_yday d = 172"
  shows "0.001 \<le> \<bar>tan (fst (get_solar_declination_and_eot d))\<bar>"
proof -
  define x where "x = radians (23.45 * sin (182 * pi / 365))"
  have s: "1 / 2 \<le> sin (182 * pi / 365)" "sin (182 * pi / 365) \<le> 1"
    using sin_solstice by simp_all
  have lo: "0.13 \<le> x" 
  proof -
    have "0.13 \<le> 23.45 * (1 / 2) * (2 / 180 :: real)" by simp
    also have "\<dots> \<le> 23.45 * sin (182 * pi / 365) * (pi / 180)"
      using s pi_ge_two by (intro mult_mono) simp_all
    finally show ?thesis by (simp add: x_def radians_def)
  qed
  have hi: "x < 1"
  proof -
    have "23.45 * sin (182 * pi / 365) * (pi / 180) \<le> 23.45 * 1 * (4 / 180)"
      using s pi_less_4 by (intro mult_mono) simp_all
    also have "\<dots> < (1::real)" by simp
    finally show ?thesis by (simp add: x_def radians_def)
  qed
  have "x / 2 \<le> tan x" using lo hi by (intro tan_lower) simp_all
  then have "0.001 \<le> tan x" using lo by simp
  then show ?thesis using assms by (simp add: declination_day_172 x_def)
qed

subsection \<open>The longitude shift in exact arithmetic\<close>

text \<open>
  In the exact-arithmetic model, moving sunrise and sunset later by the same \<open>s\<close> seconds
  changes the longitude by exactly \<open>-0.25 * (s / 60)\<close> degrees and leaves the latitude and
  the message as they are.
\<close>

lemma longitude_shift_exact:
  assumes "0 < clock_seconds sunset_time - clock_seconds sunrise_time"
    and "clock_seconds sunrise_time' = clock_seconds sunrise_time + s"
    and "clock_seconds sunset_time' = clock_seconds sunset_time + s"
  shows "\<exists>lat lon adv.
     solve_location d sunrise_time sunset_time off = Inr (Some (lat, lon), adv) \<and>
     solve_location d sunrise_time' sunset_time' off
       = Inr (Some (lat, lon - 0.25 * (real_of_int s / 60)), adv)"
proof -
  define lon where "lon = (720 - ((real_of_int (clock_seconds sunrise_time)
                + real_of_int (clock_seconds sunset_time - clock_seconds sunrise_time) / 2) / 60
               - off * 60)
            - snd (get_solar_declination_and_eot d)) / 4"
  have l: "clock_seconds sunset_time' - clock_seconds sunrise_time'
      = clock_seconds sunset_time - clock_seconds sunrise_time"
    using assms(2,3) by simp
  have lon': "(720 - ((real_of_int (clock_seconds sunrise_time')
                + real_of_int (clock_seconds sunset_time - clock_seconds sunrise_time) / 2) / 60
               - off * 60)
            - snd (get_solar_declination_and_eot d)) / 4 = lon - 0.25 * (real_of_int s / 60)"
    unfolding lon_def assms(2) by (simp add: field_simps)
  show ?thesis
  proof (cases "\<bar>tan (fst (get_solar_declination_and_eot d))\<bar> < 0.001")
    case True
    with assms(1) have "solve_location d sunrise_time sunset_time off =
        Inr (Some (0, lon), Some Warning_near_equinox)"
      by (simp add: solve_location_unfold lon_def)
    moreover from True assms(1) have "solve_location d sunrise_time' sunset_time' off =
        Inr (Some (0, lon - 0.25 * (real_of_int s / 60)), Some Warning_near_equinox)"
      unfolding solve_location_unfold l using lon' by simp
    ultimately show ?thesis by blast
  next
    case False
    define lat where "lat = degrees (arctan (- cos (radians
              (real_of_int (clock_seconds sunset_time - clock_seconds sunrise_time) / 3600 / 2 * 15))
              / tan (fst (get_solar_declination_and_eot d))))"
    from False assms(1) have "solve_location d sunrise_time sunset_time off =
        Inr (Some (lat, lon), None)"
      by (simp add: solve_location_unfold lon_def lat_def)
    moreover from False assms(1) have "solve_location d sunrise_time' sunset_time' off =
        Inr (Some (lat, lon - 0.25 * (real_of_int s / 60)), None)"
      unfolding solve_location_unfold l lat_def using lon' by simp
    ultimately show ?thesis by blast
  qed
qed

subsection \<open>Rounding to the nearest double\<close>

lemma round_even_error: "\<bar>of_int (round_even x) - x\<bar> \<le> 1 / 2"
  unfolding round_even_def Let_def by (auto simp: abs_le_iff)

lemma round_even_nearest:
  assumes "\<bar>x - of_int m\<bar> < 1 / 2"
  shows "round_even x = m"
proof -
  have "\<bar>of_int (round_even x) - x\<bar> \<le> 1 / 2" by (rule round_even_error)
  with assms have "\<bar>real_of_int (round_even x) - real_of_int m\<bar> < 1" by linarith
  then have "\<bar>real_of_int (round_even x - m)\<bar> < 1" by simp
  then have "\<bar>round_even x - m\<bar> < 1" by linarith
  then show ?thesis by simp
qed

lemma round_even_upper:
  assumes "x \<le> of_int n"
  shows "round_even x \<le> n"
proof (cases "\<lfloor>x\<rfloor> = n")
  case True
  with assms have "x = of_int n" by linarith
  then show ?thesis by (simp add: round_even_def)
next
  case False
  moreover from assms have "\<lfloor>x\<rfloor> \<le> n" using floor_mono [of x "of_int n"] by simp
  ultimately have "\<lfloor>x\<rfloor> + 1 \<le> n" by simp
  then show ?thesis unfolding round_even_def Let_def by auto
qed

lemma round_even_lower:
  assumes "of_int n \<le> x"
  shows "n \<le> round_even x"
proof -
  from assms have "n \<le> \<lfloor>x\<rfloor>" by (simp add: le_floor_iff)
  then show ?thesis unfolding round_even_def Let_def by auto
qed

lemma binary64_zero: "binary64 0 = 0"
  by (simp add: binary64_def)

lemma binary64_exponent:
  assumes "x \<noteq> 0"
  shows "2 powr of_int \<lfloor>log 2 \<bar>x\<bar>\<rfloor> \<le> \<bar>x\<bar> \<and> \<bar>x\<bar> < 2 powr of_int (\<lfloor>log 2 \<bar>x\<bar>\<rfloor> + 1)"
  using assms floor_log_eq_powr_iff [of "\<bar>x\<bar>" 2 "\<lfloor>log 2 \<bar>x\<bar>\<rfloor>"] by simp

lemma binary64_error: "\<bar>binary64 x - x\<bar> \<le> \<bar>x\<bar> / 2 ^ 53"
proof (cases "x = 0")
  case True
  then show ?thesis by (simp add: binary64_zero)
next
  case False
  define k where "k = \<lfloor>log 2 \<bar>x\<bar>\<rfloor>"
  define q :: real where "q = 2 powr of_int (k - 52)"
  have q: "0 < q" by (simp add: q_def)
  have b: "binary64 x = of_int (round_even (x / q)) * q"
    using False by (simp add: binary64_def k_def q_def Let_def)
  have "\<bar>of_int (round_even (x / q)) - x / q\<bar> \<le> 1 / 2" by (rule round_even_error)
  then have "\<bar>of_int (round_even (x / q)) - x / q\<bar> * q \<le> 1 / 2 * q"
    using q by (intro mult_right_mono) simp_all
  moreover have "\<bar>of_int (round_even (x / q)) - x / q\<bar> * q = \<bar>binary64 x - x\<bar>"
  proof -
    have "\<bar>of_int (round_even (x / q)) - x / q\<bar> * q
        = \<bar>(of_int (round_even (x / q)) - x / q) * q\<bar>"
      using q by (simp add: abs_mult)
    also have "(of_int (round_even (x / q)) - x / q) * q = binary64 x - x"
      using q by (simp add: b algebra_simps)
    finally show ?thesis .
  qed
  moreover have "q = 2 powr of_int k / 2 ^ 52"
    by (simp add: q_def powr_diff)
  moreover have "2 powr of_int k \<le> \<bar>x\<bar>"
    using binary64_exponent [OF False] by (simp add: k_def)
  ultimately show ?thesis by (simp add: field_simps)
qed

lemma binary64_nearest:
  fixes j :: nat
  assumes "2 ^ 52 \<le> \<bar>x\<bar> * 2 ^ j" and "\<bar>x\<bar> * 2 ^ j < 2 ^ 53"
    and "\<bar>x * 2 ^ j - of_int m\<bar> < 1 / 2"
  shows "binary64 x = of_int m / 2 ^ j"
proof -
  have x: "x \<noteq> 0" using assms(1) by auto
  have p: "(2::real) powr of_int (52 - int j) = 2 ^ 52 / 2 ^ j"
    by (simp add: powr_diff powr_realpow)
  have p': "(2::real) powr of_int (53 - int j) = 2 ^ 53 / 2 ^ j"
    by (simp add: powr_diff powr_realpow)
  have "\<lfloor>log 2 \<bar>x\<bar>\<rfloor> = 52 - int j"
  proof -
    have "2 powr of_int (52 - int j) \<le> \<bar>x\<bar>"
      unfolding p using assms(1) by (simp add: field_simps)
    moreover have "\<bar>x\<bar> < 2 powr of_int (52 - int j + 1)"
    proof -
      have "\<bar>x\<bar> < 2 ^ 53 / 2 ^ j" using assms(2) by (simp add: field_simps)
      moreover have "52 - int j + 1 = 53 - int j" by simp
      ultimately show ?thesis using p' by simp
    qed
    ultimately show ?thesis
      using x floor_log_eq_powr_iff [of "\<bar>x\<bar>" 2 "52 - int j"] by simp
  qed
  then have "binary64 x = of_int (round_even (x / 2 powr of_int (- int j))) * 2 powr of_int (- int j)"
    using x by (simp add: binary64_def)
  moreover have "(2::real) powr of_int (- int j) = 1 / 2 ^ j"
    by (simp add: powr_minus_divide powr_realpow)
  moreover have "round_even (x * 2 ^ j) = m" using assms(3) by (rule round_even_nearest)
  ultimately show ?thesis by simp
qed

lemma binary64_one: "binary64 1 = 1"
  using binary64_nearest [of 1 52 "2 ^ 52"] by simp

lemma binary64_minus_one: "binary64 (- 1) = - 1"
  using binary64_nearest [of "- 1" 52 "- (2 ^ 52)"] by simp

lemma binary64_bounded:
  assumes "\<bar>x\<bar> \<le> 1"
  shows "\<bar>binary64 x\<bar> \<le> 1"
proof -
  consider "x = 0" | "x = 1" | "x = - 1" | "x \<noteq> 0" "\<bar>x\<bar> < 1"
    using assms by fastforce
  then show ?thesis
  proof cases
    case 1
    then show ?thesis by (simp add: binary64_zero)
  next
    case 2
    then show ?thesis by (simp add: binary64_one)
  next
    case 3
    then show ?thesis by (simp add: binary64_minus_one)
  next
    case 4
    define k where "k = \<lfloor>log 2 \<bar>x\<bar>\<rfloor>"
    define q :: real where "q = 2 powr of_int (k - 52)"
    have q: "0 < q" by (simp add: q_def)
    have b: "binary64 x = of_int (round_even (x / q)) * q"
      using 4(1) by (simp add: binary64_def k_def q_def Let_def)
    have e: "2 powr of_int k \<le> \<bar>x\<bar>" "\<bar>x\<bar> < 2 powr of_int (k + 1)"
      using binary64_exponent [OF 4(1)] by (simp_all add: k_def)
    have k: "k + 1 \<le> 0"
    proof (rule ccontr)
      assume "\<not> k + 1 \<le> 0"
      then have "0 \<le> k" by simp
      then have "(2::real) powr 0 \<le> 2 powr of_int k" by (intro powr_mono) simp_all
      with e(1) 4(2) show False by simp
    qed
    have s: "2 ^ 53 * q = 2 powr of_int (k + 1)"
      by (simp add: q_def powr_diff powr_add)
    have "2 powr of_int (k + 1) \<le> (2::real) powr 0" using k by (intro powr_mono) simp_all
    then have k1: "2 powr of_int (k + 1) \<le> (1::real)" by simp
    have le: "\<bar>x / q\<bar> \<le> 2 ^ 53"
    proof -
      have "\<bar>x\<bar> \<le> 2 ^ 53 * q" using e(2) s by simp
      then show ?thesis using q by (simp add: field_simps)
    qed
    then have "x / q \<le> 2 ^ 53" "- (2 ^ 53) \<le> x / q" by linarith+
    then have u: "x / q \<le> of_int (2 ^ 53)" and l: "of_int (- (2 ^ 53)) \<le> x / q"
      by simp_all
    have "round_even (x / q) \<le> 2 ^ 53" using u by (rule round_even_upper)
    moreover have "- (2 ^ 53) \<le> round_even (x / q)" using l by (rule round_even_lower)
    ultimately have "\<bar>round_even (x / q)\<bar> \<le> 2 ^ 53" by simp
    then have "real_of_int \<bar>round_even (x / q)\<bar> \<le> real_of_int (2 ^ 53)"
      by (simp only: of_int_le_iff)
    then have "\<bar>real_of_int (round_even (x / q))\<bar> \<le> 2 ^ 53" by simp
    then have "\<bar>real_of_int (round_even (x / q))\<bar> * q \<le> 2 ^ 53 * q"
      using q by (intro mult_right_mono) simp_all
    then have "\<bar>binary64 x\<bar> \<le> 2 ^ 53 * q" using q by (simp add: b abs_mult)
    then show ?thesis using s k1 by linarith
  qed
qed

lemma binary64_error_le:
  assumes "\<bar>x\<bar> \<le> M"
  shows "\<bar>binary64 x - x\<bar> \<le> M / 2 ^ 53"
proof -
  have "\<bar>binary64 x - x\<bar> \<le> \<bar>x\<bar> / 2 ^ 53" by (rule binary64_error)
  also have "\<dots> \<le> M / 2 ^ 53" using assms by (intro divide_right_mono) simp_all
  finally show ?thesis .
qed

lemma binary64_bound:
  assumes "\<bar>x\<bar> \<le> M" and "M \<le> 2 ^ 53"
  shows "\<bar>binary64 x\<bar> \<le> M + 1"
proof -
  have "\<bar>binary64 x - x\<bar> \<le> M / 2 ^ 53" using assms(1) by (rule binary64_error_le)
  moreover have "M / 2 ^ 53 \<le> 1" using assms(2) by simp
  ultimately show ?thesis using assms(1) by linarith
qed

lemma fmul_bound:
  assumes "\<bar>a\<bar> \<le> A" and "\<bar>b\<bar> \<le> B" and "A * B \<le> 2 ^ 53"
  shows "\<bar>fmul a b\<bar> \<le> A * B + 1"
proof -
  have "0 \<le> A" using assms(1) by linarith
  have "\<bar>a * b\<bar> = \<bar>a\<bar> * \<bar>b\<bar>" by (rule abs_mult)
  also have "\<dots> \<le> A * B" using assms(1,2) \<open>0 \<le> A\<close> by (intro mult_mono) simp_all
  finally show ?thesis unfolding fmul_def using assms(3) by (rule binary64_bound)
qed

lemma fsub_bound:
  assumes "\<bar>a\<bar> \<le> A" and "\<bar>b\<bar> \<le> B" and "A + B \<le> 2 ^ 53"
  shows "\<bar>fsub a b\<bar> \<le> A + B + 1"
proof -
  have "\<bar>a - b\<bar> \<le> A + B" using assms(1,2) by linarith
  then show ?thesis unfolding fsub_def using assms(3) by (rule binary64_bound)
qed

subsection \<open>The double-precision solver without its local bindings\<close>

lemma binary64_milli_pos: "0 < binary64 0.001"
proof -
  have "\<bar>binary64 (1 / 1000) - 1 / 1000\<bar> \<le> 1 / 1000 / 2 ^ 53"
    using binary64_error [of "1 / 1000"] by simp
  also have "\<dots> < 1 / 1000" by simp
  finally have "0 < binary64 (1 / 1000)" by linarith
  then show ?thesis by simp
qed

lemma solve_location_double_unfold:
  "solve_location_double L d sunrise_time sunset_time off =
     (if clock_seconds sunset_time - clock_seconds sunrise_time \<le> 0
      then Inr (None, Some Error_sunset_not_later)
      else if \<bar>m_tan L (fst (get_solar_declination_and_eot_double L d))\<bar> < binary64 0.001
      then Inr (Some (0, longitude_double (snd (get_solar_declination_and_eot_double L d))
                  (clock_seconds sunrise_time)
                  (clock_seconds sunset_time - clock_seconds sunrise_time) off),
                Some Warning_near_equinox)
      else Inr (Some (degrees_double (m_atan L (fdiv
                  (- m_cos L (radians_double (fmul (fdiv (fdiv (float_of_int
                       (clock_seconds sunset_time - clock_seconds sunrise_time)) 3600) 2) 15)))
                  (m_tan L (fst (get_solar_declination_and_eot_double L d))))),
                longitude_double (snd (get_solar_declination_and_eot_double L d))
                  (clock_seconds sunrise_time)
                  (clock_seconds sunset_time - clock_seconds sunrise_time) off), None))"
proof -
  have "m_tan L (fst (get_solar_declination_and_eot_double L d)) \<noteq> 0"
    if "\<not> \<bar>m_tan L (fst (get_solar_declination_and_eot_double L d))\<bar> < binary64 0.001"
    using that binary64_milli_pos by auto
  then show ?thesis
    by (simp add: solve_location_double_def longitude_double_def clock_seconds_def
        Let_def split_beta)
qed

subsection \<open>The double-precision solver on day 81\<close>

text \<open>
  On day 81 the angle \<open>B\<close> is the double 0, so the library is called at 0 only: the
  declination is 0 and the equation of time is the negated double nearest to 7.53.
\<close>

lemma angles_double_day_81:
  assumes "tm_yday d = 81"
  shows "get_solar_declination_and_eot_double libm_rounded d = (0, - (8478026298524959 / 1125899906842624))"
proof -
  have c: "binary64 7.53 = 8478026298524959 / 1125899906842624"
    using binary64_nearest [of "7.53" 50 8478026298524959] by simp
  have c': "binary64 (8478026298524959 / 1125899906842624) = 8478026298524959 / 1125899906842624"
    using binary64_nearest [of "8478026298524959 / 1125899906842624" 50 8478026298524959] by simp
  have n: "binary64 (- (8478026298524959 / 1125899906842624)) = - (8478026298524959 / 1125899906842624)"
    using binary64_nearest [of "- (8478026298524959 / 1125899906842624)" 50 "- 8478026298524959"] by simp
  have B: "fmul (fdiv 360 365) (float_of_int (tm_yday d - 81)) = 0"
    using assms by (simp add: fmul_def float_of_int_def binary64_zero)
  have r: "radians_double 0 = 0" by (simp add: radians_double_def fmul_def binary64_zero)
  have z: "fmul x 0 = 0" "fmul 2 0 = 0" for x by (simp_all add: fmul_def binary64_zero)
  have s: "m_sin libm_rounded 0 = 0" "m_cos libm_rounded 0 = 1"
    by (simp_all add: libm_rounded_def binary64_zero binary64_one)
  have e: "fsub (fsub 0 (fmul (binary64 7.53) 1)) 0 = - (8478026298524959 / 1125899906842624)"
    unfolding fsub_def fmul_def c by (simp add: c' n)
  show ?thesis
    unfolding get_solar_declination_and_eot_double_def Let_def B r z s e by simp
qed

text \<open>
  The longitude for sunrise 05:51:00 and for sunrise 05:52:00, both with a day of 43200
  seconds and UTC+4, one rounding after the other.
\<close>

lemma longitude_double_0551:
  "longitude_double (- (8478026298524959 / 1125899906842624)) 21060 43200 4 = 1128230871493509 / 17592186044416"
proof -
  have a1: "float_of_int 21060 = 21060"
    using binary64_nearest [of "21060" 38 "5788928720240640"]
    by (simp add: fadd_def fsub_def fmul_def fdiv_def float_of_int_def)
  have a2: "binary64 (real_of_int 43200 / 2) = 21600"
    using binary64_nearest [of "21600" 38 "5937362789990400"]
    by (simp add: fadd_def fsub_def fmul_def fdiv_def float_of_int_def)
  have a3: "fadd 21060 21600 = 42660"
    using binary64_nearest [of "42660" 37 "5863145755115520"]
    by (simp add: fadd_def fsub_def fmul_def fdiv_def float_of_int_def)
  have a4: "fdiv 42660 60 = 711"
    using binary64_nearest [of "711" 43 "6254022138789888"]
    by (simp add: fadd_def fsub_def fmul_def fdiv_def float_of_int_def)
  have a5: "fmul 4 60 = 240"
    using binary64_nearest [of "240" 45 "8444249301319680"]
    by (simp add: fadd_def fsub_def fmul_def fdiv_def float_of_int_def)
  have a6: "fsub 711 240 = 471"
    using binary64_nearest [of "471" 44 "8285919626919936"]
    by (simp add: fadd_def fsub_def fmul_def fdiv_def float_of_int_def)
  have a7: "fsub 720 471 = 249"
    using binary64_nearest [of "249" 45 "8760908650119168"]
    by (simp add: fadd_def fsub_def fmul_def fdiv_def float_of_int_def)
  have a8: "fsub 249 (- (8478026298524959 / 1125899906842624)) = 1128230871493509 / 4398046511104"
    using binary64_nearest [of "288827103102338335 / 1125899906842624" 44 "4512923485974036"]
    by (simp add: fadd_def fsub_def fmul_def fdiv_def float_of_int_def)
  have a9: "fdiv (1128230871493509 / 4398046511104) 4 = 1128230871493509 / 17592186044416"
    using binary64_nearest [of "1128230871493509 / 17592186044416" 46 "4512923485974036"]
    by (simp add: fadd_def fsub_def fmul_def fdiv_def float_of_int_def)
  show ?thesis
    unfolding longitude_double_def a1 a2 a3 a4 a5 a6 a7 a8 a9 ..
qed

lemma longitude_double_0552:
  "longitude_double (- (8478026298524959 / 1125899906842624)) 21120 43200 4 = 8990662599859241 / 140737488355328"
proof -
  have b1: "float_of_int 21120 = 21120"
    using binary64_nearest [of "21120" 38 "5805421394657280"]
    by (simp add: fadd_def fsub_def fmul_def fdiv_def float_of_int_def)
  have b2: "binary64 (real_of_int 43200 / 2) = 21600"
    using binary64_nearest [of "21600" 38 "5937362789990400"]
    by (simp add: fadd_def fsub_def fmul_def fdiv_def float_of_int_def)
  have b3: "fadd 21120 21600 = 42720"
    using binary64_nearest [of "42720" 37 "5871392092323840"]
    by (simp add: fadd_def fsub_def fmul_def fdiv_def float_of_int_def)
  have b4: "fdiv 42720 60 = 712"
    using binary64_nearest [of "712" 43 "6262818231812096"]
    by (simp add: fadd_def fsub_def fmul_def fdiv_def float_of_int_def)
  have b5: "fmul 4 60 = 240"
    using binary64_nearest [of "240" 45 "8444249301319680"]
    by (simp add: fadd_def fsub_def fmul_def fdiv_def float_of_int_def)
  have b6: "fsub 712 240 = 472"
    using binary64_nearest [of "472" 44 "8303511812964352"]
    by (simp add: fadd_def fsub_def fmul_def fdiv_def float_of_int_def)
  have b7: "fsub 720 472 = 248"
    using binary64_nearest [of "248" 45 "8725724278030336"]
    by (simp add: fadd_def fsub_def fmul_def fdiv_def float_of_int_def)
  have b8: "fsub 248 (- (8478026298524959 / 1125899906842624)) = 8990662599859241 / 35184372088832"
    using binary64_nearest [of "287701203195495711 / 1125899906842624" 45 "8990662599859241"]
    by (simp add: fadd_def fsub_def fmul_def fdiv_def float_of_int_def)
  have b9: "fdiv (8990662599859241 / 35184372088832) 4 = 8990662599859241 / 140737488355328"
    using binary64_nearest [of "8990662599859241 / 140737488355328" 47 "8990662599859241"]
    by (simp add: fadd_def fsub_def fmul_def fdiv_def float_of_int_def)
  show ?thesis
    unfolding longitude_double_def b1 b2 b3 b4 b5 b6 b7 b8 b9 ..
qed

subsection \<open>Rounding errors of the longitude\<close>

text \<open>
  With the library's sine and cosine bounded by 1, the equation of time in double precision
  is bounded, and the double-precision longitude differs from the exact expression in the
  rounded offset term \<open>fmul off 60\<close> by at most \<open>2^-40\<close>.
\<close>

lemma eot_double_bound:
  assumes "\<forall>x. \<bar>m_sin L x\<bar> \<le> 1 \<and> \<bar>m_cos L x\<bar> \<le> 1"
  shows "\<bar>snd (get_solar_declination_and_eot_double L d)\<bar> \<le> 32"
proof -
  define b where "b = radians_double (fmul (fdiv 360 365) (float_of_int (tm_yday d - 81)))"
  have e: "snd (get_solar_declination_and_eot_double L d)
      = fsub (fsub (fmul (binary64 9.87) (m_sin L (fmul 2 b)))
                   (fmul (binary64 7.53) (m_cos L b)))
             (fmul (binary64 1.5) (m_sin L b))"
    by (simp add: get_solar_declination_and_eot_double_def Let_def b_def)
  have k: "\<bar>binary64 9.87\<bar> \<le> 11" "\<bar>binary64 7.53\<bar> \<le> 9" "\<bar>binary64 1.5\<bar> \<le> 3"
    using binary64_bound [of "9.87" 10] binary64_bound [of "7.53" 8] binary64_bound [of "1.5" 2]
    by simp_all
  have l: "\<bar>m_sin L (fmul 2 b)\<bar> \<le> 1" "\<bar>m_cos L b\<bar> \<le> 1" "\<bar>m_sin L b\<bar> \<le> 1"
    using assms by simp_all
  have p1: "\<bar>fmul (binary64 9.87) (m_sin L (fmul 2 b))\<bar> \<le> 11 * 1 + 1"
    using k(1) l(1) by (rule fmul_bound) simp
  have p2: "\<bar>fmul (binary64 7.53) (m_cos L b)\<bar> \<le> 9 * 1 + 1"
    using k(2) l(2) by (rule fmul_bound) simp
  have p3: "\<bar>fmul (binary64 1.5) (m_sin L b)\<bar> \<le> 3 * 1 + 1"
    using k(3) l(3) by (rule fmul_bound) simp
  have q: "\<bar>fsub (fmul (binary64 9.87) (m_sin L (fmul 2 b)))
                 (fmul (binary64 7.53) (m_cos L b))\<bar> \<le> (11 * 1 + 1) + (9 * 1 + 1) + 1"
    using p1 p2 by (rule fsub_bound) simp
  have "\<bar>fsub (fsub (fmul (binary64 9.87) (m_sin L (fmul 2 b)))
                   (fmul (binary64 7.53) (m_cos L b)))
             (fmul (binary64 1.5) (m_sin L b))\<bar>
      \<le> ((11 * 1 + 1) + (9 * 1 + 1) + 1) + (3 * 1 + 1) + 1"
    using q p3 by (rule fsub_bound) simp
  then show ?thesis unfolding e by simp
qed

lemma longitude_double_error:
  fixes sr dl :: int
  assumes "0 \<le> sr" and "0 < dl" and "sr + dl \<le> 86399"
    and "- 12 \<le> off" and "off \<le> 14" and "\<bar>e\<bar> \<le> 32"
  shows "\<bar>longitude_double e sr dl off
           - (720 - ((real_of_int sr + real_of_int dl / 2) / 60 - fmul off 60) - e) / 4\<bar>
         \<le> 1 / 2 ^ 40"
proof -
  define u :: real where "u = 1 / 2 ^ 53"
  have u: "0 < u" "u \<le> 1 / 1000000" by (simp_all add: u_def)
  have rd: "\<bar>binary64 z - z\<bar> \<le> M * u" if "\<bar>z\<bar> \<le> M" for z M
    using binary64_error_le [OF that] by (simp add: u_def)
  define A where "A = real_of_int sr + real_of_int dl / 2"
  define a where "a = float_of_int sr"
  define h where "h = binary64 (real_of_int dl / 2)"
  define t where "t = fadd a h"
  define n where "n = fdiv t 60"
  define q where "q = fmul off 60"
  define w where "w = fsub n q"
  define x where "x = fsub 720 w"
  define y where "y = fsub x e"
  have L: "longitude_double e sr dl off = fdiv y 4"
    by (simp add: longitude_double_def y_def x_def w_def q_def n_def t_def h_def a_def)
  have r: "0 \<le> real_of_int sr" "real_of_int sr \<le> 86399" "0 < real_of_int dl"
    "real_of_int dl \<le> 86399" "real_of_int sr + real_of_int dl \<le> 86399"
    using assms(1-3) by linarith+
  have A: "0 \<le> A" "A \<le> 86399" using r unfolding A_def by linarith+
  have "\<bar>real_of_int sr\<bar> \<le> 86399" using r by linarith
  then have a: "\<bar>a - real_of_int sr\<bar> \<le> 86399 * u"
    unfolding a_def float_of_int_def by (rule rd)
  have "\<bar>real_of_int dl / 2\<bar> \<le> 43200" using r by linarith
  then have h: "\<bar>h - real_of_int dl / 2\<bar> \<le> 43200 * u"
    unfolding h_def by (rule rd)
  have "\<bar>a + h\<bar> \<le> 86400" using a h A u unfolding A_def by linarith
  then have "\<bar>t - (a + h)\<bar> \<le> 86400 * u"
    unfolding t_def fadd_def by (rule rd)
  with a h have t: "\<bar>t - A\<bar> \<le> 216000 * u" unfolding A_def by linarith
  have "\<bar>t / 60\<bar> \<le> 1441" using t A u by linarith
  then have "\<bar>n - t / 60\<bar> \<le> 1441 * u"
    unfolding n_def fdiv_def by (rule rd)
  with t have n: "\<bar>n - A / 60\<bar> \<le> 5041 * u" by linarith
  have "\<bar>off * 60\<bar> \<le> 840" using assms(4,5) by linarith
  then have "\<bar>q - off * 60\<bar> \<le> 840 * u" unfolding q_def fmul_def by (rule rd)
  then have qb: "\<bar>q\<bar> \<le> 841" using assms(4,5) u by linarith
  have "\<bar>n - q\<bar> \<le> 2300" using n qb A u by linarith
  then have "\<bar>w - (n - q)\<bar> \<le> 2300 * u"
    unfolding w_def fsub_def by (rule rd)
  with n have w: "\<bar>w - (A / 60 - q)\<bar> \<le> 7341 * u" by linarith
  have "\<bar>720 - w\<bar> \<le> 3100" using w qb A u by linarith
  then have "\<bar>x - (720 - w)\<bar> \<le> 3100 * u"
    unfolding x_def fsub_def by (rule rd)
  with w have x: "\<bar>x - (720 - (A / 60 - q))\<bar> \<le> 10441 * u" by linarith
  have "\<bar>x - e\<bar> \<le> 3200" using x qb A u assms(6) by linarith
  then have "\<bar>y - (x - e)\<bar> \<le> 3200 * u"
    unfolding y_def fsub_def by (rule rd)
  with x have y: "\<bar>y - (720 - (A / 60 - q) - e)\<bar> \<le> 13641 * u" by linarith
  have "\<bar>y / 4\<bar> \<le> 801" using y qb A u assms(6) by linarith
  then have "\<bar>fdiv y 4 - y / 4\<bar> \<le> 801 * u"
    unfolding fdiv_def by (rule rd)
  moreover define z where "z = 720 - (A / 60 - q) - e"
  moreover have "\<bar>y - z\<bar> \<le> 13641 * u" using y by (simp only: z_def)
  ultimately have "\<bar>fdiv y 4 - z / 4\<bar> \<le> 8192 * u" using u by linarith
  then show ?thesis unfolding L z_def A_def q_def u_def by simp
qed

lemma libm_rounded_bounded:
  "\<forall>x. \<bar>m_sin libm_rounded x\<bar> \<le> 1 \<and> \<bar>m_cos libm_rounded x\<bar> \<le> 1"
  by (simp add: libm_rounded_def binary64_bounded)

lemma abs_diff_shift:
  fixes a b r t k :: real
  assumes "\<bar>a - r\<bar> \<le> k" and "\<bar>b - (r - t)\<bar> \<le> k"
  shows "\<bar>b - (a - t)\<bar> \<le> 2 * k"
  using assms by linarith

section \<open>The claims\<close>

text \<open>
  Claim C1. Whenever the day length \<open>sunset - sunrise\<close> in seconds is positive, the
  solver returns a location, in the near-equinox branch and in the ordinary branch alike,
  whose longitude is
  \<open>(720 - ((sunriseSeconds + dayLengthSeconds / 2) / 60 - utcOffset * 60) - eotMinutes) / 4\<close>,
  with \<open>eotMinutes\<close> the equation of time of the date.
\<close>

theorem solve_location_longitude:
  assumes "0 < clock_seconds sunset_time - clock_seconds sunrise_time"
  shows "\<exists>lat adv. solve_location d sunrise_time sunset_time off =
     Inr (Some (lat,
       (720 - ((real_of_int (clock_seconds sunrise_time)
                + real_of_int (clock_seconds sunset_time - clock_seconds sunrise_time) / 2) / 60
               - off * 60)
            - snd (get_solar_declination_and_eot d)) / 4), adv)"
proof (cases "\<bar>tan (fst (get_solar_declination_and_eot d))\<bar> < 0.001")
  case True
  with assms show ?thesis
    by (intro exI [of _ 0] exI [of _ "Some Warning_near_equinox"])
      (simp add: solve_location_unfold)
next
  case False
  with assms show ?thesis
    by (intro exI [of _ "degrees (arctan (- cos (radians
              (real_of_int (clock_seconds sunset_time - clock_seconds sunrise_time) / 3600 / 2 * 15))
              / tan (fst (get_solar_declination_and_eot d))))"] exI [of _ None])
      (simp add: solve_location_unfold)
qed

text \<open>
  An instance: 22 March 2023 (day 81), sunrise 05:50:30, sunset 19:10:30, UTC-5; solar noon
  is at 750.5 minutes and the longitude is \<open>-80.7425\<close>.
\<close>

theorem solve_location_longitude_witness:
  "0 < clock_seconds \<lparr>hour = 19, minute = 10, second = 30\<rparr>
         - clock_seconds \<lparr>hour = 5, minute = 50, second = 30\<rparr> \<and>
   (\<exists>lat adv. solve_location \<lparr>year = 2023, month = 3, day = 22\<rparr>
        \<lparr>hour = 5, minute = 50, second = 30\<rparr> \<lparr>hour = 19, minute = 10, second = 30\<rparr> (-5) =
      Inr (Some (lat, - 80.7425), adv))"
  using solve_location_longitude [where sunrise_time = "\<lparr>hour = 5, minute = 50, second = 30\<rparr>"
      and sunset_time = "\<lparr>hour = 19, minute = 10, second = 30\<rparr>"
      and d = "\<lparr>year = 2023, month = 3, day = 22\<rparr>" and off = "-5"]
  by (simp add: clock_seconds_def angles_day_81 tm_yday_2023_03_22)

text \<open>
  Claim C2. With a positive day length and \<open>\<bar>tan declination\<bar> \<ge> 0.001\<close>, the solver
  returns a location and no message; the latitude is
  \<open>arctan (- cos omega / tan declination)\<close> in degrees, where \<open>omega\<close> is
  \<open>((dayLengthSeconds / 3600) / 2) * 15\<close> degrees in radians.
\<close>

theorem solve_location_latitude:
  assumes "0 < clock_seconds sunset_time - clock_seconds sunrise_time"
    and "0.001 \<le> \<bar>tan (fst (get_solar_declination_and_eot d))\<bar>"
  shows "\<exists>lon. solve_location d sunrise_time sunset_time off =
     Inr (Some (degrees (arctan (- cos (radians
              (real_of_int (clock_seconds sunset_time - clock_seconds sunrise_time) / 3600 / 2 * 15))
              / tan (fst (get_solar_declination_and_eot d)))), lon), None)"
proof -
  from assms(2) have "\<not> \<bar>tan (fst (get_solar_declination_and_eot d))\<bar> < 0.001"
    by simp
  with assms(1) show ?thesis
    by (intro exI [of _ "(720 - ((real_of_int (clock_seconds sunrise_time)
                + real_of_int (clock_seconds sunset_time - clock_seconds sunrise_time) / 2) / 60
               - off * 60)
            - snd (get_solar_declination_and_eot d)) / 4"])
      (simp add: solve_location_unfold)
qed

text \<open>
  An instance at the June solstice: 21 June 2023 (day 172), sunrise 05:00:00, sunset
  19:00:00, UTC+1. The day is 50400 seconds long, so the hour angle is 105 degrees.
\<close>

theorem solve_location_latitude_witness:
  "0 < clock_seconds \<lparr>hour = 19, minute = 0, second = 0\<rparr>
         - clock_seconds \<lparr>hour = 5, minute = 0, second = 0\<rparr> \<and>
   0.001 \<le> \<bar>tan (fst (get_solar_declination_and_eot \<lparr>year = 2023, month = 6, day = 21\<rparr>))\<bar> \<and>
   (\<exists>lon. solve_location \<lparr>year = 2023, month = 6, day = 21\<rparr>
        \<lparr>hour = 5, minute = 0, second = 0\<rparr> \<lparr>hour = 19, minute = 0, second = 0\<rparr> 1 =
      Inr (Some (degrees (arctan (- cos (radians 105)
              / tan (fst (get_solar_declination_and_eot \<lparr>year = 2023, month = 6, day = 21\<rparr>)))),
            lon), None))"
proof -
  have t: "0.001 \<le> \<bar>tan (fst (get_solar_declination_and_eot \<lparr>year = 2023, month = 6, day = 21\<rparr>))\<bar>"
    by (rule tan_declination_day_172) (rule tm_yday_2023_06_21)
  have l: "0 < clock_seconds \<lparr>hour = 19, minute = 0, second = 0\<rparr>
         - clock_seconds \<lparr>hour = 5, minute = 0, second = 0\<rparr>"
    by (simp add: clock_seconds_def)
  have c: "clock_seconds \<lparr>hour = 19, minute = 0, second = 0\<rparr>
         - clock_seconds \<lparr>hour = 5, minute = 0, second = 0\<rparr> = 50400"
    by (simp add: clock_seconds_def)
  show ?thesis
    using solve_location_latitude [OF l t, where off = 1] t l unfolding c by simp
qed

text \<open>
  Claim C3. For every date the function returns exactly the angles of the written
  formulas, applied to the date's day of the year. The function of the source has no
  branch, no raising operation and no assignment outside its locals, and so its model is
  a plain function with no error value and no state.
\<close>

theorem solar_angles_formula:
  "get_solar_declination_and_eot d = computeSolarAngles_spec (tm_yday d)"
  by (simp add: get_solar_declination_and_eot_def computeSolarAngles_spec_def Let_def)

text \<open>An instance: on day 81 the declination is 0 and the equation of time \<open>-7.53\<close> minutes.\<close>

theorem solar_angles_formula_witness:
  "get_solar_declination_and_eot \<lparr>year = 2023, month = 3, day = 22\<rparr> = computeSolarAngles_spec 81
   \<and> computeSolarAngles_spec 81 = (0, - 7.53)"
  using solar_angles_formula [of "\<lparr>year = 2023, month = 3, day = 22\<rparr>"]
  by (simp add: tm_yday_2023_03_22 computeSolarAngles_spec_def radians_def)

text \<open>
  Claim C4. The solver answers with no location and the error message exactly when the
  day length is zero or negative; in every other case it answers with a location and
  without the error message. In particular the \<^verbatim>\<open>ZeroDivisionError\<close> branch is never
  taken, whatever the date and the offset.
\<close>

theorem solve_location_failure_iff:
  "(solve_location d sunrise_time sunset_time off = Inr (None, Some Error_sunset_not_later))
     = (clock_seconds sunset_time - clock_seconds sunrise_time \<le> 0) \<and>
   (\<exists>loc adv. solve_location d sunrise_time sunset_time off = Inr (Some loc, adv)
       \<and> adv \<noteq> Some Error_sunset_not_later)
     = (0 < clock_seconds sunset_time - clock_seconds sunrise_time)"
proof (cases "clock_seconds sunset_time - clock_seconds sunrise_time \<le> 0")
  case True
  then show ?thesis by (simp add: solve_location_unfold)
next
  case False
  then have "solve_location d sunrise_time sunset_time off \<noteq> Inr (None, Some Error_sunset_not_later)"
    by (simp add: solve_location_unfold)
  moreover from False
  have "\<exists>loc adv. solve_location d sunrise_time sunset_time off = Inr (Some loc, adv)
       \<and> adv \<noteq> Some Error_sunset_not_later"
    by (cases "\<bar>tan (fst (get_solar_declination_and_eot d))\<bar> < 0.001")
      (simp_all only: solve_location_unfold if_False if_True, blast+)
  ultimately show ?thesis using False by simp
qed

text \<open>An instance: sunrise 18:30:00 and sunset 06:30:00 on the same day.\<close>

theorem solve_location_failure_iff_witness:
  "clock_seconds \<lparr>hour = 6, minute = 30, second = 0\<rparr>
     - clock_seconds \<lparr>hour = 18, minute = 30, second = 0\<rparr> \<le> 0 \<and>
   solve_location \<lparr>year = 2023, month = 6, day = 21\<rparr>
      \<lparr>hour = 18, minute = 30, second = 0\<rparr> \<lparr>hour = 6, minute = 30, second = 0\<rparr> 8 =
     Inr (None, Some Error_sunset_not_later)"
  using solve_location_failure_iff [where d = "\<lparr>year = 2023, month = 6, day = 21\<rparr>"
      and sunrise_time = "\<lparr>hour = 18, minute = 30, second = 0\<rparr>"
      and sunset_time = "\<lparr>hour = 6, minute = 30, second = 0\<rparr>" and off = 8]
  by (simp add: clock_seconds_def)

text \<open>
  Claim C5. With a positive day length and \<open>\<bar>tan declination\<bar> < 0.001\<close>, the solver
  returns a location with latitude 0 and the longitude of the ordinary formula, together
  with the near-equinox warning.
\<close>

theorem solve_location_near_equinox:
  assumes "0 < clock_seconds sunset_time - clock_seconds sunrise_time"
    and "\<bar>tan (fst (get_solar_declination_and_eot d))\<bar> < 0.001"
  shows "solve_location d sunrise_time sunset_time off =
     Inr (Some (0,
       (720 - ((real_of_int (clock_seconds sunrise_time)
                + real_of_int (clock_seconds sunset_time - clock_seconds sunrise_time) / 2) / 60
               - off * 60)
            - snd (get_solar_declination_and_eot d)) / 4), Some Warning_near_equinox)"
  using assms by (simp add: solve_location_unfold)

text \<open>
  An instance in a leap year: 21 March 2024 (day 81), sunrise 06:00:00, sunset 18:00:00,
  UTC+0.
\<close>

theorem solve_location_near_equinox_witness:
  "0 < clock_seconds \<lparr>hour = 18, minute = 0, second = 0\<rparr>
         - clock_seconds \<lparr>hour = 6, minute = 0, second = 0\<rparr> \<and>
   \<bar>tan (fst (get_solar_declination_and_eot \<lparr>year = 2024, month = 3, day = 21\<rparr>))\<bar> < 0.001 \<and>
   solve_location \<lparr>year = 2024, month = 3, day = 21\<rparr>
        \<lparr>hour = 6, minute = 0, second = 0\<rparr> \<lparr>hour = 18, minute = 0, second = 0\<rparr> 0 =
      Inr (Some (0, 1.8825), Some Warning_near_equinox)"
  using solve_location_near_equinox [where sunrise_time = "\<lparr>hour = 6, minute = 0, second = 0\<rparr>"
      and sunset_time = "\<lparr>hour = 18, minute = 0, second = 0\<rparr>"
      and d = "\<lparr>year = 2024, month = 3, day = 21\<rparr>" and off = 0]
  by (simp add: clock_seconds_def angles_day_81 tm_yday_2024_03_21)

text \<open>
  Claim C6, as stated, fails. The claim: every location the solver returns has its latitude
  in \<open>[-90, 90]\<close> and its longitude in \<open>[-180, 180]\<close>, for valid clock times with a
  positive day length and an offset in \<open>[-12, 14]\<close>. On 22 March 2023, with sunrise
  06:00:00, sunset 18:00:00 and UTC+14 the solver returns the longitude \<open>211.8825\<close>:
  the source never reduces the longitude modulo 360.
\<close>

theorem longitude_out_of_range_counterexample:
  "valid_date \<lparr>year = 2023, month = 3, day = 22\<rparr> \<and>
   valid_time \<lparr>hour = 6, minute = 0, second = 0\<rparr> \<and>
   valid_time \<lparr>hour = 18, minute = 0, second = 0\<rparr> \<and>
   0 < clock_seconds \<lparr>hour = 18, minute = 0, second = 0\<rparr>
        - clock_seconds \<lparr>hour = 6, minute = 0, second = 0\<rparr> \<and>
   - 12 \<le> (14 :: real) \<and> (14 :: real) \<le> 14 \<and>
   solve_location \<lparr>year = 2023, month = 3, day = 22\<rparr>
      \<lparr>hour = 6, minute = 0, second = 0\<rparr> \<lparr>hour = 18, minute = 0, second = 0\<rparr> 14 =
     Inr (Some (0, 211.8825), Some Warning_near_equinox) \<and>
   \<not> (211.8825 \<le> (180 :: real))"
  by (simp add: solve_location_unfold clock_seconds_def angles_day_81 tm_yday_2023_03_22
      valid_time_def valid_date_def days_in_month_def DAYS_IN_MONTH_def is_leap_def)

text \<open>
  Claim C6, amended. For valid clock times with a positive day length and an offset in
  \<open>[-12, 14]\<close>, the solver returns a location whose latitude lies in \<open>[-90, 90]\<close> and
  whose longitude lies strictly between \<open>-364.725\<close> and \<open>394.725\<close>.
\<close>

theorem solve_location_range:
  assumes "valid_time sunrise_time" and "valid_time sunset_time"
    and "0 < clock_seconds sunset_time - clock_seconds sunrise_time"
    and "- 12 \<le> off" and "off \<le> 14"
  shows "\<exists>lat lon adv. solve_location d sunrise_time sunset_time off = Inr (Some (lat, lon), adv)
     \<and> - 90 \<le> lat \<and> lat \<le> 90 \<and> - 364.725 < lon \<and> lon < 394.725"
proof -
  define lon where "lon = (720 - ((real_of_int (clock_seconds sunrise_time)
                + real_of_int (clock_seconds sunset_time - clock_seconds sunrise_time) / 2) / 60
               - off * 60)
            - snd (get_solar_declination_and_eot d)) / 4"
  have r: "- 364.725 < lon \<and> lon < 394.725"
    unfolding lon_def
    using clock_seconds_range [OF assms(1)] clock_seconds_range [OF assms(2)] assms(3-5)
    by (intro longitude_range eot_bound) simp_all
  show ?thesis
  proof (cases "\<bar>tan (fst (get_solar_declination_and_eot d))\<bar> < 0.001")
    case True
    with assms(3) have "solve_location d sunrise_time sunset_time off =
        Inr (Some (0, lon), Some Warning_near_equinox)"
      by (simp add: solve_location_unfold lon_def)
    with r show ?thesis by simp
  next
    case False
    define lat where "lat = degrees (arctan (- cos (radians
              (real_of_int (clock_seconds sunset_time - clock_seconds sunrise_time) / 3600 / 2 * 15))
              / tan (fst (get_solar_declination_and_eot d))))"
    from False assms(3) have "solve_location d sunrise_time sunset_time off =
        Inr (Some (lat, lon), None)"
      by (simp add: solve_location_unfold lon_def lat_def)
    moreover have "- 90 \<le> lat \<and> lat \<le> 90"
      unfolding lat_def using degrees_arctan_bounds less_imp_le by blast
    ultimately show ?thesis using r by simp
  qed
qed

text \<open>
  An instance at the edge of the day: sunrise 23:59:58, sunset 23:59:59, UTC-12, where the
  longitude is about \<open>-358\<close>.
\<close>

theorem solve_location_range_witness:
  "valid_time \<lparr>hour = 23, minute = 59, second = 58\<rparr> \<and>
   valid_time \<lparr>hour = 23, minute = 59, second = 59\<rparr> \<and>
   0 < clock_seconds \<lparr>hour = 23, minute = 59, second = 59\<rparr>
        - clock_seconds \<lparr>hour = 23, minute = 59, second = 58\<rparr> \<and>
   - 12 \<le> (- 12 :: real) \<and> (- 12 :: real) \<le> 14 \<and>
   (\<exists>lat lon adv. solve_location \<lparr>year = 2023, month = 3, day = 22\<rparr>
        \<lparr>hour = 23, minute = 59, second = 58\<rparr> \<lparr>hour = 23, minute = 59, second = 59\<rparr> (- 12)
        = Inr (Some (lat, lon), adv)
     \<and> - 90 \<le> lat \<and> lat \<le> 90 \<and> - 364.725 < lon \<and> lon < 394.725)"
proof -
  have v: "valid_time \<lparr>hour = 23, minute = 59, second = 58\<rparr>"
     "valid_time \<lparr>hour = 23, minute = 59, second = 59\<rparr>"
    by (simp_all add: valid_time_def)
  have l: "0 < clock_seconds \<lparr>hour = 23, minute = 59, second = 59\<rparr>
        - clock_seconds \<lparr>hour = 23, minute = 59, second = 58\<rparr>"
    by (simp add: clock_seconds_def)
  have o: "- 12 \<le> (- 12 :: real)" "(- 12 :: real) \<le> 14" by simp_all
  from solve_location_range [OF v l o] v l show ?thesis by simp
qed

text \<open>
  Claim C7. On a date whose day of the year is 81, with sunrise 06:30:00, sunset 18:30:00
  and UTC+8, the day is 43200 seconds long, local solar noon is at 750 minutes, and the
  solver returns the near-equinox warning with latitude 0 and longitude \<open>114.3825\<close>,
  which is less than 6 degrees away from 120.
\<close>

theorem solve_location_example:
  assumes "tm_yday d = 81"
  shows "clock_seconds \<lparr>hour = 18, minute = 30, second = 0\<rparr>
           - clock_seconds \<lparr>hour = 6, minute = 30, second = 0\<rparr> = 43200 \<and>
     (real_of_int (clock_seconds \<lparr>hour = 6, minute = 30, second = 0\<rparr>) + 43200 / 2) / 60 = 750 \<and>
     solve_location d \<lparr>hour = 6, minute = 30, second = 0\<rparr> \<lparr>hour = 18, minute = 30, second = 0\<rparr> 8
       = Inr (Some (0, 114.3825), Some Warning_near_equinox) \<and>
     \<bar>114.3825 - 120\<bar> < (6 :: real)"
  using assms by (simp add: solve_location_unfold clock_seconds_def angles_day_81)

text \<open>An instance: 22 March 2025 is day 81.\<close>

theorem solve_location_example_witness:
  "tm_yday \<lparr>year = 2025, month = 3, day = 22\<rparr> = 81 \<and>
   solve_location \<lparr>year = 2025, month = 3, day = 22\<rparr>
       \<lparr>hour = 6, minute = 30, second = 0\<rparr> \<lparr>hour = 18, minute = 30, second = 0\<rparr> 8
     = Inr (Some (0, 114.3825), Some Warning_near_equinox)"
proof -
  have y: "tm_yday \<lparr>year = 2025, month = 3, day = 22\<rparr> = 81"
    by (simp add: tm_yday_def days_before_month_def DAYS_BEFORE_MONTH_def is_leap_def)
  from solve_location_example [OF y] y show ?thesis by simp
qed

text \<open>
  Claim C8, as stated, fails. The claim: with the date and the offset fixed, moving sunrise
  and sunset later by the same amount, so that solar noon is \<open>t\<close> minutes later, changes
  the returned longitude by exactly \<open>-0.25 * t\<close> degrees. In double precision, on 22 March
  2023 with UTC+4, sunrise 05:51:00 and sunset 17:51:00 give the longitude
  \<open>1128230871493509 / 2^44\<close> (printed 64.1325), sunrise 05:52:00 and sunset 17:52:00 give
  \<open>8990662599859241 / 2^47\<close> (printed 63.8825): the change is \<open>-0.25 + 2^-47\<close>, since the
  sum \<open>720 - utc_noon_min - eot_min\<close> passes 256 and is rounded on another grid.
\<close>

theorem longitude_shift_double_counterexample:
  "valid_time \<lparr>hour = 5, minute = 51, second = 0\<rparr> \<and>
   valid_time \<lparr>hour = 17, minute = 51, second = 0\<rparr> \<and>
   valid_time \<lparr>hour = 5, minute = 52, second = 0\<rparr> \<and>
   valid_time \<lparr>hour = 17, minute = 52, second = 0\<rparr> \<and>
   clock_seconds \<lparr>hour = 5, minute = 52, second = 0\<rparr>
     = clock_seconds \<lparr>hour = 5, minute = 51, second = 0\<rparr> + 60 \<and>
   clock_seconds \<lparr>hour = 17, minute = 52, second = 0\<rparr>
     = clock_seconds \<lparr>hour = 17, minute = 51, second = 0\<rparr> + 60 \<and>
   solve_location_double libm_rounded \<lparr>year = 2023, month = 3, day = 22\<rparr>
       \<lparr>hour = 5, minute = 51, second = 0\<rparr> \<lparr>hour = 17, minute = 51, second = 0\<rparr> 4
     = Inr (Some (0, 1128230871493509 / 17592186044416), Some Warning_near_equinox) \<and>
   solve_location_double libm_rounded \<lparr>year = 2023, month = 3, day = 22\<rparr>
       \<lparr>hour = 5, minute = 52, second = 0\<rparr> \<lparr>hour = 17, minute = 52, second = 0\<rparr> 4
     = Inr (Some (0, 8990662599859241 / 140737488355328), Some Warning_near_equinox) \<and>
   8990662599859241 / 140737488355328
     \<noteq> 1128230871493509 / 17592186044416 - 0.25 * (real_of_int 60 / 60)"
proof -
  have t: "m_tan libm_rounded 0 = 0" by (simp add: libm_rounded_def binary64_zero)
  have g: "get_solar_declination_and_eot_double libm_rounded \<lparr>year = 2023, month = 3, day = 22\<rparr>
      = (0, - (8478026298524959 / 1125899906842624))"
    by (rule angles_double_day_81) (rule tm_yday_2023_03_22)
  have s: "clock_seconds \<lparr>hour = 5, minute = 51, second = 0\<rparr> = 21060"
    "clock_seconds \<lparr>hour = 17, minute = 51, second = 0\<rparr> = 64260"
    "clock_seconds \<lparr>hour = 5, minute = 52, second = 0\<rparr> = 21120"
    "clock_seconds \<lparr>hour = 17, minute = 52, second = 0\<rparr> = 64320"
    by (simp_all add: clock_seconds_def)
  show ?thesis
    by (simp add: solve_location_double_unfold g t s binary64_milli_pos [simplified]
        longitude_double_0551 longitude_double_0552 valid_time_def)
qed

text \<open>
  Claim C8, amended. For valid clock times with a positive day length and an offset in
  \<open>[-12, 14]\<close>, whatever the date, and for every mathematical library whose sine and
  cosine stay within \<open>[-1, 1]\<close>: moving sunrise and sunset later by the same \<open>s\<close> seconds,
  that is solar noon later by \<open>t = s / 60\<close> minutes, leaves the latitude and the message
  of the double-precision solver as they are and changes its longitude by \<open>-0.25 * t\<close>
  degrees up to a rounding error of at most \<open>2^-39\<close> degrees.
\<close>

theorem longitude_shift_double:
  assumes "valid_time sunrise_time" and "valid_time sunset_time"
    and "valid_time sunrise_time'" and "valid_time sunset_time'"
    and "0 < clock_seconds sunset_time - clock_seconds sunrise_time"
    and "clock_seconds sunrise_time' = clock_seconds sunrise_time + s"
    and "clock_seconds sunset_time' = clock_seconds sunset_time + s"
    and "- 12 \<le> off" and "off \<le> 14"
    and "\<forall>x. \<bar>m_sin L x\<bar> \<le> 1 \<and> \<bar>m_cos L x\<bar> \<le> 1"
  shows "\<exists>lat lon lon' adv.
     solve_location_double L d sunrise_time sunset_time off = Inr (Some (lat, lon), adv) \<and>
     solve_location_double L d sunrise_time' sunset_time' off = Inr (Some (lat, lon'), adv) \<and>
     \<bar>lon' - (lon - 0.25 * (real_of_int s / 60))\<bar> \<le> 1 / 2 ^ 39"
proof -
  define e where "e = snd (get_solar_declination_and_eot_double L d)"
  define sr where "sr = clock_seconds sunrise_time"
  define dl where "dl = clock_seconds sunset_time - clock_seconds sunrise_time"
  define lon where "lon = longitude_double e sr dl off"
  define lon' where "lon' = longitude_double e (sr + s) dl off"
  have e: "\<bar>e\<bar> \<le> 32" unfolding e_def using assms(10) by (rule eot_double_bound)
  have ss': "clock_seconds sunset_time' = sr + s + dl"
    using assms(6,7) by (simp add: dl_def sr_def)
  have sr': "clock_seconds sunrise_time' = sr + s" using assms(6) by (simp add: sr_def)
  have b: "0 \<le> sr" "0 < dl" "sr + dl \<le> 86399" "0 \<le> sr + s" "sr + s + dl \<le> 86399"
    using clock_seconds_range [OF assms(1)] clock_seconds_range [OF assms(2)]
      clock_seconds_range [OF assms(3)] clock_seconds_range [OF assms(4)] assms(5,6,7)
    by (simp_all add: sr_def dl_def)
  have 1: "\<bar>lon - (720 - ((real_of_int sr + real_of_int dl / 2) / 60 - fmul off 60) - e) / 4\<bar>
      \<le> 1 / 2 ^ 40"
    unfolding lon_def using b(1,2,3) assms(8,9) e by (rule longitude_double_error)
  have 2: "\<bar>lon' - (720 - ((real_of_int (sr + s) + real_of_int dl / 2) / 60 - fmul off 60) - e) / 4\<bar>
      \<le> 1 / 2 ^ 40"
    unfolding lon'_def using b(4,2,5) assms(8,9) e by (rule longitude_double_error)
  have 3: "(720 - ((real_of_int (sr + s) + real_of_int dl / 2) / 60 - fmul off 60) - e) / 4
      = (720 - ((real_of_int sr + real_of_int dl / 2) / 60 - fmul off 60) - e) / 4
        - 0.25 * (real_of_int s / 60)"
    by (simp add: field_simps)
  have "\<bar>lon' - (lon - 0.25 * (real_of_int s / 60))\<bar> \<le> 2 * (1 / 2 ^ 40)"
    using 1 2 unfolding 3 by (rule abs_diff_shift)
  then have bound: "\<bar>lon' - (lon - 0.25 * (real_of_int s / 60))\<bar> \<le> 1 / 2 ^ 39"
    by simp
  show ?thesis
  proof (cases "\<bar>m_tan L (fst (get_solar_declination_and_eot_double L d))\<bar> < binary64 0.001")
    case True
    have "solve_location_double L d sunrise_time sunset_time off
        = Inr (Some (0, lon), Some Warning_near_equinox)"
      using True b(2) by (simp add: solve_location_double_unfold lon_def e_def sr_def dl_def)
    moreover have "solve_location_double L d sunrise_time' sunset_time' off
        = Inr (Some (0, lon'), Some Warning_near_equinox)"
      using True b(2) by (simp add: solve_location_double_unfold sr' ss' lon'_def e_def)
    ultimately show ?thesis using bound by blast
  next
    case False
    define lat where "lat = degrees_double (m_atan L (fdiv
                  (- m_cos L (radians_double (fmul (fdiv (fdiv (float_of_int dl) 3600) 2) 15)))
                  (m_tan L (fst (get_solar_declination_and_eot_double L d)))))"
    have "solve_location_double L d sunrise_time sunset_time off = Inr (Some (lat, lon), None)"
      using False b(2)
      by (simp add: solve_location_double_unfold lon_def lat_def e_def sr_def dl_def)
    moreover have "solve_location_double L d sunrise_time' sunset_time' off
        = Inr (Some (lat, lon'), None)"
      using False b(2)
      by (simp add: solve_location_double_unfold sr' ss' lon'_def lat_def e_def)
    ultimately show ?thesis using bound by blast
  qed
qed

text \<open>
  An instance: 21 June 2023, UTC+8, 04:45:10--19:46:20 against one second later, with the
  correctly rounded library.
\<close>

theorem longitude_shift_double_witness:
  "valid_time \<lparr>hour = 4, minute = 45, second = 10\<rparr> \<and>
   valid_time \<lparr>hour = 19, minute = 46, second = 20\<rparr> \<and>
   valid_time \<lparr>hour = 4, minute = 45, second = 11\<rparr> \<and>
   valid_time \<lparr>hour = 19, minute = 46, second = 21\<rparr> \<and>
   0 < clock_seconds \<lparr>hour = 19, minute = 46, second = 20\<rparr>
         - clock_seconds \<lparr>hour = 4, minute = 45, second = 10\<rparr> \<and>
   clock_seconds \<lparr>hour = 4, minute = 45, second = 11\<rparr>
       = clock_seconds \<lparr>hour = 4, minute = 45, second = 10\<rparr> + 1 \<and>
   clock_seconds \<lparr>hour = 19, minute = 46, second = 21\<rparr>
       = clock_seconds \<lparr>hour = 19, minute = 46, second = 20\<rparr> + 1 \<and>
   - 12 \<le> (8 :: real) \<and> (8 :: real) \<le> 14 \<and>
   (\<forall>x. \<bar>m_sin libm_rounded x\<bar> \<le> 1 \<and> \<bar>m_cos libm_rounded x\<bar> \<le> 1) \<and>
   (\<exists>lat lon lon' adv.
     solve_location_double libm_rounded \<lparr>year = 2023, month = 6, day = 21\<rparr>
        \<lparr>hour = 4, minute = 45, second = 10\<rparr> \<lparr>hour = 19, minute = 46, second = 20\<rparr> 8
       = Inr (Some (lat, lon), adv) \<and>
     solve_location_double libm_rounded \<lparr>year = 2023, month = 6, day = 21\<rparr>
        \<lparr>hour = 4, minute = 45, second = 11\<rparr> \<lparr>hour = 19, minute = 46, second = 21\<rparr> 8
       = Inr (Some (lat, lon'), adv) \<and>
     \<bar>lon' - (lon - 0.25 * (real_of_int 1 / 60))\<bar> \<le> 1 / 2 ^ 39)"
proof -
  have v: "valid_time \<lparr>hour = 4, minute = 45, second = 10\<rparr>"
    "valid_time \<lparr>hour = 19, minute = 46, second = 20\<rparr>"
    "valid_time \<lparr>hour = 4, minute = 45, second = 11\<rparr>"
    "valid_time \<lparr>hour = 19, minute = 46, second = 21\<rparr>"
    by (simp_all add: valid_time_def)
  have l: "0 < clock_seconds \<lparr>hour = 19, minute = 46, second = 20\<rparr>
         - clock_seconds \<lparr>hour = 4, minute = 45, second = 10\<rparr>"
    by (simp add: clock_seconds_def)
  have s: "clock_seconds \<lparr>hour = 4, minute = 45, second = 11\<rparr>
       = clock_seconds \<lparr>hour = 4, minute = 45, second = 10\<rparr> + 1"
    "clock_seconds \<lparr>hour = 19, minute = 46, second = 21\<rparr>
       = clock_seconds \<lparr>hour = 19, minute = 46, second = 20\<rparr> + 1"
    by (simp_all add: clock_seconds_def)
  have o: "- 12 \<le> (8 :: real)" "(8 :: real) \<le> 14" by simp_all
  note m = libm_rounded_bounded
  from longitude_shift_double [OF v l s o m, of "\<lparr>year = 2023, month = 6, day = 21\<rparr>"]
    v l s o m
  show ?thesis by blast
qed

text \<open>
  Claim C9. For every date the declination lies between \<open>-23.45\<close> and \<open>23.45\<close> degrees
  (in radians) and the equation of time between \<open>-20\<close> and \<open>20\<close> minutes.
\<close>

theorem solar_angles_bounds:
  "radians (- 23.45) \<le> fst (get_solar_declination_and_eot d) \<and>
   fst (get_solar_declination_and_eot d) \<le> radians 23.45 \<and>
   - 20 \<le> snd (get_solar_declination_and_eot d) \<and>
   snd (get_solar_declination_and_eot d) \<le> 20"
proof -
  have "radians (- 23.45) = - radians 23.45" by (simp add: radians_def)
  then show ?thesis
    using declination_bound [of d] eot_bound [of d] by linarith
qed

text \<open>An instance: 21 June 2023.\<close>

theorem solar_angles_bounds_witness:
  "radians (- 23.45) \<le> fst (get_solar_declination_and_eot \<lparr>year = 2023, month = 6, day = 21\<rparr>) \<and>
   fst (get_solar_declination_and_eot \<lparr>year = 2023, month = 6, day = 21\<rparr>) \<le> radians 23.45 \<and>
   - 20 \<le> snd (get_solar_declination_and_eot \<lparr>year = 2023, month = 6, day = 21\<rparr>) \<and>
   snd (get_solar_declination_and_eot \<lparr>year = 2023, month = 6, day = 21\<rparr>) \<le> 20"
  by (rule solar_angles_bounds)

text \<open>
  Claim C10. The date enters the computation through its day of the year only: two dates
  with the same day of the year have the same solar angles and, for the same sunrise,
  sunset and offset, the same result of the solver.
\<close>

theorem day_of_year_only:
  assumes "tm_yday d1 = tm_yday d2"
  shows "get_solar_declination_and_eot d1 = get_solar_declination_and_eot d2 \<and>
     solve_location d1 sunrise_time sunset_time off = solve_location d2 sunrise_time sunset_time off"
proof -
  have "get_solar_declination_and_eot d1 = get_solar_declination_and_eot d2"
    using assms by (simp add: get_solar_declination_and_eot_def)
  then show ?thesis by (simp add: solve_location_unfold)
qed

text \<open>
  An instance: 21 June 2023 and 20 June 2024 (a leap year) are both day 172.
\<close>

theorem day_of_year_only_witness:
  "tm_yday \<lparr>year = 2023, month = 6, day = 21\<rparr> = tm_yday \<lparr>year = 2024, month = 6, day = 20\<rparr> \<and>
   get_solar_declination_and_eot \<lparr>year = 2023, month = 6, day = 21\<rparr>
     = get_solar_declination_and_eot \<lparr>year = 2024, month = 6, day = 20\<rparr> \<and>
   solve_location \<lparr>year = 2023, month = 6, day = 21\<rparr>
       \<lparr>hour = 4, minute = 45, second = 10\<rparr> \<lparr>hour = 19, minute = 46, second = 20\<rparr> 8
     = solve_location \<lparr>year = 2024, month = 6, day = 20\<rparr>
       \<lparr>hour = 4, minute = 45, second = 10\<rparr> \<lparr>hour = 19, minute = 46, second = 20\<rparr> 8"
proof -
  have y: "tm_yday \<lparr>year = 2023, month = 6, day = 21\<rparr> = tm_yday \<lparr>year = 2024, month = 6, day = 20\<rparr>"
    by (simp add: tm_yday_def days_before_month_def DAYS_BEFORE_MONTH_def is_leap_def)
  from day_of_year_only [OF y] y show ?thesis by blast
qed

end
